theory Spec2Isabelle
  imports Complex_Main
begin

section \<open>Pasqal devices: the array validator of \<^verbatim>\<open>pulser/devices.py\<close>\<close>

text \<open>
  The development embeds \<^verbatim>\<open>PasqalDevice\<close> and its variant \<^verbatim>\<open>Chadoq2\<close>.
  Exceptions are values: a function that can raise returns \<open>exn + 'a\<close>, with \<open>Inl\<close>
  for the exception. The validator reads a position only through \<^verbatim>\<open>len\<close>,
  \<^verbatim>\<open>pdist\<close> and \<^verbatim>\<open>np.linalg.norm\<close>; the distances and norms it tests are the
  float64 values that scipy and numpy compute, rounding, infinities and NaN included.
  Those computed values are parameters of the model, so that every statement below is
  about the values the program compares, not about the exact Euclidean distance.
\<close>

subsection \<open>Exceptions\<close>

text \<open>
  A message built by \<^verbatim>\<open>"...{}...".format(v)\<close> is kept as the template together with
  the list of formatted values; a message without \<^verbatim>\<open>.format\<close> has no values.
  \<open>AxisError\<close> is numpy's exception for an axis that the array does not have (in
  numpy it derives from both ValueError and IndexError); \<open>RegisterError\<close> stands
  for whatever the Register collaborator raises.
\<close>

datatype fmt_arg = IntArg int | RealArg real

datatype exn =
    TypeError string "fmt_arg list"
  | ValueError string "fmt_arg list"
  | AxisError string
  | RegisterError

text \<open>Sequencing of statements that can raise.\<close>

definition and_then :: "exn + 'a \<Rightarrow> ('a \<Rightarrow> exn + 'b) \<Rightarrow> exn + 'b" where
  "and_then r f = (case r of Inl e \<Rightarrow> Inl e | Inr v \<Rightarrow> f v)"

subsection \<open>Data\<close>

text \<open>
  A position is a sequence of coordinates. The type \<open>'x\<close> of a coordinate is left open:
  it can be any representation of the numbers Python accepts there, NaN and the
  infinities included.
\<close>

type_synonym 'x pos = "'x list"

text \<open>A Python dict keeps insertion order and has unique keys: an association list.\<close>

type_synonym 'x qubit_dict = "(string \<times> 'x pos) list"

text \<open>
  Of the Register collaborator (\<^verbatim>\<open>register.py\<close> is not part of the sources) the
  device only reads the attribute \<^verbatim>\<open>qubits\<close>.
\<close>

record 'x register =
  qubits :: "'x qubit_dict"

text \<open>
  Channels come from \<^verbatim>\<open>channels.py\<close>, which is not part of the sources either: a
  channel is kept as its class (\<^verbatim>\<open>Raman\<close> or \<^verbatim>\<open>Rydberg\<close>), its addressing
  (\<^verbatim>\<open>Global\<close> or \<^verbatim>\<open>Local\<close>) and its construction arguments. The attribute
  \<^verbatim>\<open>basis\<close> of a channel is a parameter of everything that reads it.
\<close>

datatype addressing = Global | Local

datatype channel = Raman addressing "real list" | Rydberg addressing "real list"

text \<open>
  The abstract properties of \<^verbatim>\<open>PasqalDevice\<close>: a device variant is the record of
  the values its overrides return. The two limits on distances are numbers that float64
  holds exactly (4 and 50 for Chadoq2), so that the comparison of a computed float64 with
  a limit is the comparison of the two numbers.
\<close>

record device_class =
  name :: string
  max_dimensionality :: int
  max_atom_num :: int
  max_radial_distance :: real
  min_atom_distance :: real
  channels :: "(string \<times> channel) list"

text \<open>An instance: its class and the field \<^verbatim>\<open>_register\<close>.\<close>

record 'x device =
  cls :: device_class
  x_register :: "'x register"

text \<open>The argument of the constructor: a dict, a Register, or any other Python value.\<close>

datatype ('x, 'a) qubits_arg = Dict "'x qubit_dict" | Reg "'x register" | Other 'a

subsection \<open>Float64 values\<close>

text \<open>
  What \<^verbatim>\<open>pdist\<close> and \<^verbatim>\<open>np.linalg.norm\<close> return: a float64, that is NaN, an
  infinity, or a finite number.
\<close>

datatype float64 = NaN | NegInf | Fin real | PosInf

text \<open>
  The comparisons of lines 89 and 93, of a float64 with a limit: every comparison with NaN
  is false.
\<close>

fun less_than :: "float64 \<Rightarrow> real \<Rightarrow> bool" where
  "less_than NaN l = False"
| "less_than NegInf l = True"
| "less_than (Fin x) l = (x < l)"
| "less_than PosInf l = False"

fun greater_than :: "float64 \<Rightarrow> real \<Rightarrow> bool" where
  "greater_than NaN l = False"
| "greater_than NegInf l = False"
| "greater_than (Fin x) l = (l < x)"
| "greater_than PosInf l = True"

text \<open>
  \<^verbatim>\<open>np.minimum\<close> and \<^verbatim>\<open>np.maximum\<close>, the operations that \<^verbatim>\<open>np.min\<close> and
  \<^verbatim>\<open>np.max\<close> reduce with: NaN as soon as one argument is NaN.
\<close>

fun minimum :: "float64 \<Rightarrow> float64 \<Rightarrow> float64" where
  "minimum NaN y = NaN"
| "minimum x NaN = NaN"
| "minimum NegInf y = NegInf"
| "minimum x NegInf = NegInf"
| "minimum PosInf y = y"
| "minimum x PosInf = x"
| "minimum (Fin a) (Fin b) = Fin (min a b)"

fun maximum :: "float64 \<Rightarrow> float64 \<Rightarrow> float64" where
  "maximum NaN y = NaN"
| "maximum x NaN = NaN"
| "maximum PosInf y = PosInf"
| "maximum x PosInf = PosInf"
| "maximum NegInf y = y"
| "maximum x NegInf = x"
| "maximum (Fin a) (Fin b) = Fin (max a b)"

text \<open>
  \<^verbatim>\<open>np.min\<close> and \<^verbatim>\<open>np.max\<close> of a one-dimensional array: a reduction from the
  first element on; numpy raises ValueError on an array of size zero.
\<close>

definition np_min :: "float64 list \<Rightarrow> exn + float64" where
  "np_min xs =
     (case xs of
        [] \<Rightarrow> Inl (ValueError
          ''zero-size array to reduction operation minimum which has no identity'' [])
      | y # ys \<Rightarrow> Inr (fold (\<lambda>x acc. minimum acc x) ys y))"

definition np_max :: "float64 list \<Rightarrow> exn + float64" where
  "np_max xs =
     (case xs of
        [] \<Rightarrow> Inl (ValueError
          ''zero-size array to reduction operation maximum which has no identity'' [])
      | y # ys \<Rightarrow> Inr (fold (\<lambda>x acc. maximum acc x) ys y))"

subsection \<open>The scipy and numpy functions on positions\<close>

text \<open>
  The arithmetic of scipy and numpy is not part of the sources. The float64 that
  \<^verbatim>\<open>pdist\<close> computes for two rows, and the float64 that \<^verbatim>\<open>np.linalg.norm\<close>
  computes for one row, are the two fields of a parameter \<open>nu\<close> of the validator;
  nothing is assumed of them.
\<close>

record 'x numerics =
  row_dist :: "'x pos \<Rightarrow> 'x pos \<Rightarrow> float64"
  row_norm :: "'x pos \<Rightarrow> float64"

text \<open>
  \<^verbatim>\<open>scipy.spatial.distance.pdist(X)\<close>: the distances of the rows \<open>i < j\<close>, in the
  order (0,1), (0,2), ..., (1,2), ... It refuses an array that is not two-dimensional,
  as the empty list is. \<^verbatim>\<open>_check_array\<close> calls it after the loop over the
  positions, so on rows of one length.
\<close>

primrec pairwise_distances :: "'x numerics \<Rightarrow> 'x pos list \<Rightarrow> float64 list" where
  "pairwise_distances nu [] = []"
| "pairwise_distances nu (x # xs) = map (row_dist nu x) xs @ pairwise_distances nu xs"

definition pdist :: "'x numerics \<Rightarrow> 'x pos list \<Rightarrow> exn + float64 list" where
  "pdist nu X =
     (if X = [] then Inl (ValueError ''A 2-dimensional array must be passed.'' [])
      else Inr (pairwise_distances nu X))"

text \<open>
  \<^verbatim>\<open>np.linalg.norm(X, axis=1)\<close>: the norm of every row. The empty list is the
  array of shape (0,), which has no axis 1: numpy raises AxisError. As for
  \<^verbatim>\<open>pdist\<close>, the validator calls it on rows of one length.
\<close>

definition norm_axis1 :: "'x numerics \<Rightarrow> 'x pos list \<Rightarrow> exn + float64 list" where
  "norm_axis1 nu X =
     (if X = [] then Inl (AxisError ''axis 1 is out of bounds for array of dimension 1'')
      else Inr (map (row_norm nu) X))"

subsection \<open>\<^verbatim>\<open>PasqalDevice._check_array\<close>\<close>

text \<open>The four exceptions the validator raises itself (lines 80, 84, 90 and 94).\<close>

definition too_many_atoms :: "device_class \<Rightarrow> exn" where
  "too_many_atoms c =
     ValueError ''Too many atoms in the array, accepts at most{} atoms.''
       [IntArg (max_atom_num c)]"

definition wrong_dimensionality :: "device_class \<Rightarrow> exn" where
  "wrong_dimensionality c =
     ValueError ''All qubit positions must be {}D vectors.'' [IntArg (max_dimensionality c)]"

definition too_close :: exn where
  "too_close =
     ValueError
       ''Qubit positions don't respect the minimal distance between atoms for this device.''
       []"

definition too_far :: "device_class \<Rightarrow> exn" where
  "too_far c =
     ValueError ''All qubits must be at most {}um away from the center of the array.''
       [RealArg (max_radial_distance c)]"

text \<open>
  The body of \<^verbatim>\<open>_check_array\<close> is four statements in a row; each is a definition
  here, named after the rule it enforces, and \<open>check_array\<close> runs them in the order of
  the source. Lines 79 to 81:
\<close>

definition check_capacity :: "device_class \<Rightarrow> 'x pos list \<Rightarrow> exn + unit" where
  "check_capacity c atoms =
     (if int (length atoms) > max_atom_num c then Inl (too_many_atoms c) else Inr ())"

text \<open>Lines 82 to 85, the loop over the positions:\<close>

primrec check_dimensionality :: "device_class \<Rightarrow> 'x pos list \<Rightarrow> exn + unit" where
  "check_dimensionality c [] = Inr ()"
| "check_dimensionality c (pos # atoms) =
     (if int (length pos) \<noteq> max_dimensionality c then Inl (wrong_dimensionality c)
      else check_dimensionality c atoms)"

text \<open>Lines 87 to 91:\<close>

definition check_spacing :: "'x numerics \<Rightarrow> device_class \<Rightarrow> 'x pos list \<Rightarrow> exn + unit" where
  "check_spacing nu c atoms =
     (if length atoms > 1 then
        and_then (pdist nu atoms) (\<lambda>distances.
        and_then (np_min distances) (\<lambda>m.
        if less_than m (min_atom_distance c) then Inl too_close else Inr ()))
      else Inr ())"

text \<open>Lines 93 to 96:\<close>

definition check_radial :: "'x numerics \<Rightarrow> device_class \<Rightarrow> 'x pos list \<Rightarrow> exn + unit" where
  "check_radial nu c atoms =
     and_then (norm_axis1 nu atoms) (\<lambda>norms.
     and_then (np_max norms) (\<lambda>m.
     if greater_than m (max_radial_distance c) then Inl (too_far c) else Inr ()))"

definition check_array :: "'x numerics \<Rightarrow> device_class \<Rightarrow> 'x pos list \<Rightarrow> exn + unit" where
  "check_array nu c atoms =
     and_then (check_capacity c atoms) (\<lambda>_.
     and_then (check_dimensionality c atoms) (\<lambda>_.
     and_then (check_spacing nu c atoms) (\<lambda>_.
     check_radial nu c atoms)))"

subsection \<open>\<^verbatim>\<open>PasqalDevice.__init__\<close> and the accessors\<close>

text \<open>
  The constructor of Register is a parameter \<open>mk\<close>: the device only calls it. The list
  of atoms is \<^verbatim>\<open>list(register.qubits.values())\<close>.
\<close>

definition type_error :: exn where
  "type_error = TypeError ''The qubits must be a in a dict or Register class instance.'' []"

definition PasqalDevice_init ::
  "'x numerics \<Rightarrow> device_class \<Rightarrow> ('x qubit_dict \<Rightarrow> exn + 'x register) \<Rightarrow>
   ('x, 'a) qubits_arg \<Rightarrow> exn + 'x device" where
  "PasqalDevice_init nu c mk arg =
     and_then
       (case arg of
          Dict d \<Rightarrow> mk d
        | Reg r \<Rightarrow> Inr r
        | Other v \<Rightarrow> Inl type_error)
       (\<lambda>reg.
     and_then (check_array nu c (map snd (qubits reg))) (\<lambda>_.
     Inr \<lparr>cls = c, x_register = reg\<rparr>))"

text \<open>
  \<^verbatim>\<open>supported_bases\<close>: the set comprehension over \<^verbatim>\<open>self.channels.values()\<close>
  adds the basis of one channel after the other to a set that starts empty.
\<close>

definition supported_bases :: "(channel \<Rightarrow> 'b) \<Rightarrow> device_class \<Rightarrow> 'b set" where
  "supported_bases basis c = fold (\<lambda>ch s. insert (basis ch) s) (map snd (channels c)) {}"

subsection \<open>\<^verbatim>\<open>Chadoq2\<close>\<close>

definition Chadoq2 :: device_class where
  "Chadoq2 =
     \<lparr>name = ''Chadoq2'',
      max_dimensionality = 2,
      max_atom_num = 100,
      max_radial_distance = 50,
      min_atom_distance = 4,
      channels =
        [(''rydberg_global'', Rydberg Global [50, 2.5]),
         (''rydberg_local'', Rydberg Local [50, 10, 100]),
         (''rydberg_local2'', Rydberg Local [50, 10, 100]),
         (''raman_local'', Raman Local [50, 10, 100])]\<rparr>"

subsection \<open>Instances of the parameters for concrete inputs\<close>

text \<open>
  Modelled from the spec: the constructor of Register (\<^verbatim>\<open>register.py\<close> is not part
  of the sources). Section 6 of the specification: from a mapping of labels to coordinate
  vectors it builds a structure whose attribute \<^verbatim>\<open>qubits\<close> is that mapping, and
  it fails when the vectors are not all of one length. It only instantiates the
  parameter \<open>mk\<close> at concrete inputs.
\<close>

definition Register_init :: "'x qubit_dict \<Rightarrow> exn + 'x register" where
  "Register_init d =
     (case d of
        [] \<Rightarrow> Inr \<lparr>qubits = d\<rparr>
      | (k, p) # rest \<Rightarrow>
          if list_all (\<lambda>q. length (snd q) = length p) rest
          then Inr \<lparr>qubits = d\<rparr> else Inl RegisterError)"

text \<open>
  The values of \<^verbatim>\<open>pdist\<close> and \<^verbatim>\<open>np.linalg.norm\<close> on finite coordinates when no
  float64 operation rounds: the square root of the sum of the squares. This is not what
  scipy and numpy compute in general; it only instantiates the parameter \<open>nu\<close> at the
  concrete inputs below, which are integers, or lie on one axis, so that the differences,
  the squares, their sums and the square roots are exact in float64, or so far from the
  limit that rounding cannot change the comparison.
\<close>

definition unrounded :: "real numerics" where
  "unrounded =
     \<lparr>row_dist = (\<lambda>u v. Fin (sqrt (\<Sum>(a, b) \<leftarrow> zip u v. (a - b)\<^sup>2))),
      row_norm = (\<lambda>u. Fin (sqrt (\<Sum>a \<leftarrow> u. a\<^sup>2)))\<rparr>"

section \<open>Properties of the library functions and of the four checks\<close>

lemma minimum_NaN: "minimum a b = NaN \<longleftrightarrow> a = NaN \<or> b = NaN"
  by (cases a; cases b) simp_all

lemma maximum_NaN: "maximum a b = NaN \<longleftrightarrow> a = NaN \<or> b = NaN"
  by (cases a; cases b) simp_all

lemma less_than_minimum:
  "less_than (minimum a b) l \<longleftrightarrow> a \<noteq> NaN \<and> b \<noteq> NaN \<and> (less_than a l \<or> less_than b l)"
  by (cases a; cases b) auto

lemma greater_than_maximum:
  "greater_than (maximum a b) l \<longleftrightarrow>
     a \<noteq> NaN \<and> b \<noteq> NaN \<and> (greater_than a l \<or> greater_than b l)"
  by (cases a; cases b) auto

lemma less_than_fold_minimum:
  "less_than (fold (\<lambda>x acc. minimum acc x) ys y) l \<longleftrightarrow>
     list_all (\<lambda>x. x \<noteq> NaN) (y # ys) \<and> list_ex (\<lambda>x. less_than x l) (y # ys)"
proof (induction ys arbitrary: y)
  case Nil
  show ?case by (cases y) simp_all
next
  case (Cons x ys)
  show ?case
    by (simp add: Cons.IH less_than_minimum minimum_NaN) blast
qed

lemma greater_than_fold_maximum:
  "greater_than (fold (\<lambda>x acc. maximum acc x) ys y) l \<longleftrightarrow>
     list_all (\<lambda>x. x \<noteq> NaN) (y # ys) \<and> list_ex (\<lambda>x. greater_than x l) (y # ys)"
proof (induction ys arbitrary: y)
  case Nil
  show ?case by (cases y) simp_all
next
  case (Cons x ys)
  show ?case
    by (simp add: Cons.IH greater_than_maximum maximum_NaN) blast
qed

lemma np_min_less_than:
  "xs \<noteq> [] \<Longrightarrow>
   \<exists>m. np_min xs = Inr m \<and>
     (less_than m l \<longleftrightarrow> list_all (\<lambda>x. x \<noteq> NaN) xs \<and> list_ex (\<lambda>x. less_than x l) xs)"
  by (cases xs) (simp_all add: np_min_def less_than_fold_minimum)

lemma np_max_greater_than:
  "xs \<noteq> [] \<Longrightarrow>
   \<exists>m. np_max xs = Inr m \<and>
     (greater_than m l \<longleftrightarrow>
        list_all (\<lambda>x. x \<noteq> NaN) xs \<and> list_ex (\<lambda>x. greater_than x l) xs)"
  by (cases xs) (simp_all add: np_max_def greater_than_fold_maximum)

lemma set_pairwise_distances:
  "set (pairwise_distances nu X) =
     {row_dist nu (X ! i) (X ! j) | i j. i < j \<and> j < length X}"
proof (induction X)
  case Nil
  then show ?case by simp
next
  case (Cons x xs)
  have "{row_dist nu ((x # xs) ! i) ((x # xs) ! j) | i j. i < j \<and> j < length (x # xs)} =
        row_dist nu x ` set xs \<union>
        {row_dist nu (xs ! i) (xs ! j) | i j. i < j \<and> j < length xs}"
    (is "?L = ?A \<union> ?B")
  proof (intro set_eqI iffI)
    fix d assume "d \<in> ?L"
    then obtain i j where d: "d = row_dist nu ((x # xs) ! i) ((x # xs) ! j)"
      and ij: "i < j" "j < length (x # xs)" by blast
    from ij obtain j' where j': "j = Suc j'" by (cases j) auto
    show "d \<in> ?A \<union> ?B"
    proof (cases i)
      case 0
      with d j' ij show ?thesis by auto
    next
      case (Suc i')
      with d j' ij have "d = row_dist nu (xs ! i') (xs ! j') \<and> i' < j' \<and> j' < length xs"
        by auto
      then show ?thesis by blast
    qed
  next
    fix d assume "d \<in> ?A \<union> ?B"
    then show "d \<in> ?L"
    proof
      assume "d \<in> ?A"
      then obtain y where "y \<in> set xs" "d = row_dist nu x y" by blast
      then obtain k where "k < length xs" "xs ! k = y" by (auto simp: in_set_conv_nth)
      with \<open>d = row_dist nu x y\<close>
      have "d = row_dist nu ((x # xs) ! 0) ((x # xs) ! Suc k) \<and> 0 < Suc k
        \<and> Suc k < length (x # xs)"
        by simp
      then show ?thesis by blast
    next
      assume "d \<in> ?B"
      then obtain i j where "d = row_dist nu (xs ! i) (xs ! j)" "i < j" "j < length xs"
        by blast
      then have "d = row_dist nu ((x # xs) ! Suc i) ((x # xs) ! Suc j) \<and> Suc i < Suc j
        \<and> Suc j < length (x # xs)" by simp
      then show ?thesis by blast
    qed
  qed
  with Cons show ?case by simp
qed

lemma list_ex_pairwise_distances:
  "list_ex P (pairwise_distances nu X) =
     (\<exists>i j. i < j \<and> j < length X \<and> P (row_dist nu (X ! i) (X ! j)))"
  unfolding list_ex_iff set_pairwise_distances by auto

lemma list_all_pairwise_distances:
  "list_all (\<lambda>d. \<not> P d) (pairwise_distances nu X) =
     (\<not> (\<exists>i j. i < j \<and> j < length X \<and> P (row_dist nu (X ! i) (X ! j))))"
  unfolding list_all_iff set_pairwise_distances by auto

lemma pairwise_distances_nonempty: "1 < length X \<Longrightarrow> pairwise_distances nu X \<noteq> []"
  by (cases X; cases "tl X") auto

lemma check_dimensionality_eq:
  "check_dimensionality c atoms =
     (if list_all (\<lambda>p. int (length p) = max_dimensionality c) atoms then Inr ()
      else Inl (wrong_dimensionality c))"
  by (induction atoms) auto

text \<open>
  The test of line 89 on the computed distances, and the test of line 93 on the computed
  norms: a NaN among them makes the comparison false.
\<close>

lemma check_spacing_eq:
  "check_spacing nu c atoms =
     (if list_all (\<lambda>d. d \<noteq> NaN) (pairwise_distances nu atoms)
         \<and> list_ex (\<lambda>d. less_than d (min_atom_distance c)) (pairwise_distances nu atoms)
      then Inl too_close else Inr ())"
proof (cases "1 < length atoms")
  case True
  then have ne: "pairwise_distances nu atoms \<noteq> []" by (rule pairwise_distances_nonempty)
  from True have "atoms \<noteq> []" by auto
  with True np_min_less_than [OF ne, of "min_atom_distance c"] show ?thesis
    by (auto simp: check_spacing_def pdist_def and_then_def)
next
  case False
  then have "pairwise_distances nu atoms = []" by (cases atoms; cases "tl atoms") auto
  with False show ?thesis by (simp add: check_spacing_def)
qed

lemma check_radial_eq:
  "atoms \<noteq> [] \<Longrightarrow>
   check_radial nu c atoms =
     (if list_all (\<lambda>p. row_norm nu p \<noteq> NaN) atoms
         \<and> list_ex (\<lambda>p. greater_than (row_norm nu p) (max_radial_distance c)) atoms
      then Inl (too_far c) else Inr ())"
  using np_max_greater_than [of "map (row_norm nu) atoms" "max_radial_distance c"]
  by (auto simp: check_radial_def norm_axis1_def and_then_def list_all_iff list_ex_iff)

lemma check_radial_Nil:
  "check_radial nu c [] = Inl (AxisError ''axis 1 is out of bounds for array of dimension 1'')"
  by (simp add: check_radial_def norm_axis1_def and_then_def)

lemma check_array_eq:
  "check_array nu c atoms =
     (if int (length atoms) > max_atom_num c then Inl (too_many_atoms c)
      else if \<not> list_all (\<lambda>p. int (length p) = max_dimensionality c) atoms
        then Inl (wrong_dimensionality c)
      else if list_all (\<lambda>d. d \<noteq> NaN) (pairwise_distances nu atoms)
         \<and> list_ex (\<lambda>d. less_than d (min_atom_distance c)) (pairwise_distances nu atoms)
        then Inl too_close
      else check_radial nu c atoms)"
  by (simp add: check_array_def check_capacity_def check_dimensionality_eq check_spacing_eq
      and_then_def)

lemma init_Reg:
  "PasqalDevice_init nu c mk (Reg r) =
     (case check_array nu c (map snd (qubits r)) of
        Inl e \<Rightarrow> Inl e
      | Inr u \<Rightarrow> Inr \<lparr>cls = c, x_register = r\<rparr>)"
  by (simp add: PasqalDevice_init_def and_then_def)


lemma Chadoq2_limits:
  "max_dimensionality Chadoq2 = 2" "max_atom_num Chadoq2 = 100"
  "max_radial_distance Chadoq2 = 50" "min_atom_distance Chadoq2 = 4"
  by (simp_all add: Chadoq2_def)

lemma check_spacing_pair:
  "check_spacing nu c [a, b] =
     (if less_than (row_dist nu a b) (min_atom_distance c) then Inl too_close else Inr ())"
  by (cases "row_dist nu a b") (simp_all add: check_spacing_eq)


lemma check_radial_single:
  "check_radial nu c [a] =
     (if greater_than (row_norm nu a) (max_radial_distance c) then Inl (too_far c)
      else Inr ())"
  by (cases "row_norm nu a") (simp_all add: check_radial_eq)

lemma unrounded2:
  "row_dist unrounded [a, b] [a', b'] = Fin (sqrt ((a - a')\<^sup>2 + (b - b')\<^sup>2))"
  "row_norm unrounded [a, b] = Fin (sqrt (a\<^sup>2 + b\<^sup>2))"
  by (simp_all add: unrounded_def)


lemma fold_insert_basis:
  "fold (\<lambda>ch s. insert (basis ch) s) chs S = basis ` set chs \<union> S"
  by (induction chs arbitrary: S) auto

lemma supported_bases_eq: "supported_bases basis c = basis ` snd ` set (channels c)"
  by (simp add: supported_bases_def fold_insert_basis)

section \<open>The claims\<close>

subsection \<open>C1: the order of the checks\<close>

text \<open>
  C1. For every list of atoms the validator reports the first violated rule in the order
  capacity, dimensionality, minimum spacing, radial bound, and nothing of the later rules:
  too many atoms win over everything; else a position of the wrong length wins; else the
  spacing test of line 89 wins, which fails when a computed distance is less than
  \<open>min_atom_distance\<close> and no computed distance is NaN; else the radial test of line 93
  is reported, which fails when a computed norm is greater than \<open>max_radial_distance\<close>
  and no computed norm is NaN. The distances and norms are the float64 values that
  \<^verbatim>\<open>pdist\<close> and \<^verbatim>\<open>np.linalg.norm\<close> return, whatever they are. When no test fails the
  validator returns, except on the empty list, where numpy raises inside the fourth
  statement, after the first three have passed.
\<close>

theorem check_array_first_violation:
  "check_array nu c atoms =
     (if int (length atoms) > max_atom_num c then Inl (too_many_atoms c)
      else if \<exists>p \<in> set atoms. int (length p) \<noteq> max_dimensionality c
        then Inl (wrong_dimensionality c)
      else if (\<exists>i j. i < j \<and> j < length atoms \<and>
                less_than (row_dist nu (atoms ! i) (atoms ! j)) (min_atom_distance c))
            \<and> \<not> (\<exists>i j. i < j \<and> j < length atoms \<and>
                row_dist nu (atoms ! i) (atoms ! j) = NaN)
        then Inl too_close
      else if (\<exists>p \<in> set atoms. greater_than (row_norm nu p) (max_radial_distance c))
            \<and> \<not> (\<exists>p \<in> set atoms. row_norm nu p = NaN)
        then Inl (too_far c)
      else if atoms = []
        then Inl (AxisError ''axis 1 is out of bounds for array of dimension 1'')
      else Inr ())"
proof -
  have d: "(\<exists>p \<in> set atoms. int (length p) \<noteq> max_dimensionality c) =
      (\<not> list_all (\<lambda>p. int (length p) = max_dimensionality c) atoms)"
    by (simp add: list_all_iff)
  have s1: "(\<exists>i j. i < j \<and> j < length atoms \<and>
        less_than (row_dist nu (atoms ! i) (atoms ! j)) (min_atom_distance c)) =
      list_ex (\<lambda>d. less_than d (min_atom_distance c)) (pairwise_distances nu atoms)"
    by (simp only: list_ex_pairwise_distances)
  have s2: "(\<not> (\<exists>i j. i < j \<and> j < length atoms \<and>
        row_dist nu (atoms ! i) (atoms ! j) = NaN)) =
      list_all (\<lambda>d. d \<noteq> NaN) (pairwise_distances nu atoms)"
    using list_all_pairwise_distances [of "\<lambda>d. d = NaN" nu atoms] by simp
  have r1: "(\<exists>p \<in> set atoms. greater_than (row_norm nu p) (max_radial_distance c)) =
      list_ex (\<lambda>p. greater_than (row_norm nu p) (max_radial_distance c)) atoms"
    by (simp add: list_ex_iff)
  have r2: "(\<not> (\<exists>p \<in> set atoms. row_norm nu p = NaN)) =
      list_all (\<lambda>p. row_norm nu p \<noteq> NaN) atoms"
    by (simp add: list_all_iff)
  show ?thesis
  proof (cases "atoms = []")
    case True
    then show ?thesis by (simp add: check_array_eq check_radial_Nil)
  next
    case False
    then show ?thesis
      unfolding d s1 s2 r1 r2 check_array_eq by (auto simp: check_radial_eq)
  qed
qed

theorem check_array_first_violation_witness:
  "check_array unrounded Chadoq2 [[60, 0, 0], [60, 0, 0]] = Inl (wrong_dimensionality Chadoq2)
   \<and> check_array unrounded Chadoq2 (replicate 101 [60, 0, 0]) = Inl (too_many_atoms Chadoq2)
   \<and> check_array unrounded Chadoq2 [[60, 0], [60, 0]] = Inl too_close
   \<and> check_array unrounded Chadoq2 [[60, 0], [50, 0]] = Inl (too_far Chadoq2)"
proof -
  have n: "row_norm unrounded [60, 0] = Fin 60" "row_norm unrounded [50, 0] = Fin 50"
    using real_sqrt_abs [of 60] real_sqrt_abs [of 50] by (simp_all add: unrounded2)
  have d: "row_dist unrounded [60, 0] [60, 0] = Fin 0" by (simp add: unrounded2)
  have e: "row_dist unrounded [60, 0] [50, 0] = Fin 10"
    using real_sqrt_abs [of 10] by (simp add: unrounded2)
  have i: "\<And>P. (\<exists>i j. i < j \<and> j < Suc (Suc 0) \<and> P i j) = P 0 (Suc 0)"
    by (auto simp: less_Suc_eq)
  show ?thesis
    using check_array_first_violation [of unrounded Chadoq2 "[[60, 0, 0], [60, 0, 0]]"]
      check_array_first_violation [of unrounded Chadoq2 "replicate 101 [60, 0, 0]"]
      check_array_first_violation [of unrounded Chadoq2 "[[60, 0], [60, 0]]"]
      check_array_first_violation [of unrounded Chadoq2 "[[60, 0], [50, 0]]"]
    by (simp add: Chadoq2_limits n d e i)
qed

subsection \<open>C2: the empty list of atoms\<close>

text \<open>
  C2 says that validation of the empty list raises nothing and that a device can be built
  from an empty mapping. The code does not do that: the first three statements pass, and
  the fourth calls \<^verbatim>\<open>np.linalg.norm([], axis=1)\<close>, which raises, so that the validator
  raises on the empty list for every device, and no device is built. The spacing statement
  guards the reduction it makes (\<^verbatim>\<open>len(atoms) > 1\<close>); the radial statement has no such
  guard.
\<close>

theorem check_array_empty_raises:
  "check_array nu Chadoq2 [] =
     Inl (AxisError ''axis 1 is out of bounds for array of dimension 1'')
   \<and> PasqalDevice_init nu Chadoq2 mk (Reg \<lparr>qubits = []\<rparr>) =
       Inl (AxisError ''axis 1 is out of bounds for array of dimension 1'')
   \<and> PasqalDevice_init nu Chadoq2 Register_init (Dict []) =
       Inl (AxisError ''axis 1 is out of bounds for array of dimension 1'')
   \<and> check_array nu c [] \<noteq> Inr ()"
  by (simp add: check_array_eq check_radial_Nil init_Reg PasqalDevice_init_def and_then_def
      Register_init_def Chadoq2_limits)

subsection \<open>C5: capacity is checked first\<close>

text \<open>
  C5. A list of atoms longer than \<open>max_atom_num\<close> is refused with the capacity
  violation, whatever the positions are and whatever their lengths; so is the construction
  of a device from a Register, or from a dict that Register accepts, with that many qubits.
\<close>

theorem capacity_first:
  "(int (length atoms) > max_atom_num c \<longrightarrow>
      check_array nu c atoms = Inl (too_many_atoms c))
   \<and> (int (length (qubits r)) > max_atom_num c \<longrightarrow>
        PasqalDevice_init nu c mk (Reg r :: ('x, 'a) qubits_arg) = Inl (too_many_atoms c)
        \<and> (mk d = Inr r \<longrightarrow>
             PasqalDevice_init nu c mk (Dict d :: ('x, 'a) qubits_arg)
               = Inl (too_many_atoms c)))"
  by (auto simp: check_array_eq PasqalDevice_init_def and_then_def)

theorem capacity_first_witness:
  "check_array unrounded Chadoq2 (replicate 101 [0, 0, 7]) = Inl (too_many_atoms Chadoq2)
   \<and> PasqalDevice_init unrounded Chadoq2 Register_init
        (Reg \<lparr>qubits = map (\<lambda>i. (replicate i CHR ''q'', [0, 0, 7])) [1..<102]\<rparr>
          :: (real, unit) qubits_arg)
      = Inl (too_many_atoms Chadoq2)"
  using capacity_first [where 'a = unit and atoms = "replicate 101 [0, 0, 7]" and c = Chadoq2
      and r = "\<lparr>qubits = map (\<lambda>i. (replicate i CHR ''q'', [0, 0, 7])) [1..<102]\<rparr>"
      and mk = Register_init and nu = unrounded]
  by (auto simp: Chadoq2_limits)

subsection \<open>C6: an argument that is neither a dict nor a Register\<close>

text \<open>
  C6. For an argument that is neither a dict nor a Register the constructor raises the
  TypeError, for every device variant, every behaviour of Register and of the numeric
  libraries: the result depends on none of them, so no check of the validator takes part
  in it.
\<close>

theorem init_type_error:
  "PasqalDevice_init nu c mk (Other v) =
     Inl (TypeError ''The qubits must be a in a dict or Register class instance.'' [])"
  by (simp add: PasqalDevice_init_def and_then_def type_error_def)

subsection \<open>C10: the constants of Chadoq2\<close>

text \<open>
  C10. The accessors of Chadoq2 return the name "Chadoq2", the dimensionality 2, at most
  100 atoms, the radial distance 50 and the minimal distance 4, on the class and on every
  instance that the constructor returns.
\<close>

theorem Chadoq2_constants:
  "name Chadoq2 = ''Chadoq2'' \<and> max_dimensionality Chadoq2 = 2 \<and> max_atom_num Chadoq2 = 100
   \<and> max_radial_distance Chadoq2 = 50 \<and> min_atom_distance Chadoq2 = 4
   \<and> (PasqalDevice_init nu Chadoq2 mk arg = Inr self \<longrightarrow>
        name (cls self) = ''Chadoq2'' \<and> max_dimensionality (cls self) = 2
        \<and> max_atom_num (cls self) = 100 \<and> max_radial_distance (cls self) = 50
        \<and> min_atom_distance (cls self) = 4)"
proof -
  have "PasqalDevice_init nu Chadoq2 mk arg = Inr self \<Longrightarrow> cls self = Chadoq2"
    by (auto simp: PasqalDevice_init_def and_then_def split: sum.splits)
  then show ?thesis by (auto simp: Chadoq2_def)
qed

theorem Chadoq2_constants_witness:
  "PasqalDevice_init unrounded Chadoq2 Register_init
     (Dict [(''q0'', [0, 0]), (''q1'', [4, 0])] :: (real, unit) qubits_arg) =
     Inr \<lparr>cls = Chadoq2, x_register = \<lparr>qubits = [(''q0'', [0, 0]), (''q1'', [4, 0])]\<rparr>\<rparr>
   \<and> name (cls \<lparr>cls = Chadoq2,
        x_register = \<lparr>qubits = [(''q0'', [0, 0 :: real]), (''q1'', [4, 0])]\<rparr>\<rparr>) = ''Chadoq2''
   \<and> max_atom_num (cls \<lparr>cls = Chadoq2,
        x_register = \<lparr>qubits = [(''q0'', [0, 0 :: real]), (''q1'', [4, 0])]\<rparr>\<rparr>) = 100"
proof -
  have e: "row_dist unrounded [0, 0] [4, 0] = Fin 4"
    using real_sqrt_abs [of 4] by (simp add: unrounded2)
  have n: "row_norm unrounded [0, 0] = Fin 0" "row_norm unrounded [4, 0] = Fin 4"
    using real_sqrt_abs [of 4] by (simp_all add: unrounded2)
  have r: "Register_init [(''q0'', [0, 0 :: real]), (''q1'', [4, 0])] =
      Inr \<lparr>qubits = [(''q0'', [0, 0]), (''q1'', [4, 0])]\<rparr>"
    by (simp add: Register_init_def)
  have i: "PasqalDevice_init unrounded Chadoq2 Register_init
     (Dict [(''q0'', [0, 0]), (''q1'', [4, 0])] :: (real, unit) qubits_arg) =
     Inr \<lparr>cls = Chadoq2, x_register = \<lparr>qubits = [(''q0'', [0, 0]), (''q1'', [4, 0])]\<rparr>\<rparr>"
    by (simp add: PasqalDevice_init_def and_then_def r check_array_eq check_radial_eq e n
        Chadoq2_limits)
  show ?thesis
    using i Chadoq2_constants [of unrounded Register_init
        "Dict [(''q0'', [0, 0]), (''q1'', [4, 0])] :: (real, unit) qubits_arg"
        "\<lparr>cls = Chadoq2, x_register = \<lparr>qubits = [(''q0'', [0, 0]), (''q1'', [4, 0])]\<rparr>\<rparr>"]
    by simp
qed

subsection \<open>C3: the bound on the spacing is inclusive\<close>




subsection \<open>C4: the radial bound is inclusive\<close>




subsection \<open>C7: the supported bases\<close>

text \<open>
  C7. For every device variant and every reading of the attribute \<^verbatim>\<open>basis\<close>,
  \<open>supported_bases\<close> is the set of the bases of the channels in \<open>channels\<close>, with at
  most as many elements as there are channels; an entry whose basis another entry already
  has adds nothing: the set, and so its cardinality, is the one of the channels without
  that entry, and it has fewer elements than there are channels.
\<close>

theorem supported_bases_distinct:
  "supported_bases basis c = basis ` snd ` set (channels c)
   \<and> card (supported_bases basis c) \<le> length (channels c)
   \<and> (channels c = xs @ (k, ch) # ys \<and> basis ch \<in> basis ` snd ` set (xs @ ys) \<longrightarrow>
        supported_bases basis c = supported_bases basis (c\<lparr>channels := xs @ ys\<rparr>)
        \<and> card (supported_bases basis c) = card (supported_bases basis (c\<lparr>channels := xs @ ys\<rparr>))
        \<and> card (supported_bases basis c) < length (channels c))"
proof -
  have 1: "card (basis ` snd ` set zs) \<le> length zs" for zs :: "(string \<times> channel) list"
  proof -
    have "card (basis ` snd ` set zs) \<le> card (set zs)"
      by (metis List.finite_set card_image_le finite_imageI image_image)
    also have "\<dots> \<le> length zs" by (rule card_length)
    finally show ?thesis .
  qed
  have 2: "basis ` snd ` set (xs @ (k, ch) # ys) = basis ` snd ` set (xs @ ys)"
    if "basis ch \<in> basis ` snd ` set (xs @ ys)"
    using that by auto
  have 3: "card (basis ` snd ` set (xs @ ys)) < length (xs @ (k, ch) # ys)"
    using 1 [of "xs @ ys"] by simp
  show ?thesis
    using 1 [of "channels c"] 2 3 by (simp add: supported_bases_eq)
qed

theorem supported_bases_distinct_witness:
  "supported_bases (case_channel (\<lambda>a ps. ''raman'') (\<lambda>a ps. ''rydberg'')) Chadoq2
     = {''rydberg'', ''raman''}
   \<and> card (supported_bases (case_channel (\<lambda>a ps. ''raman'') (\<lambda>a ps. ''rydberg''))
        Chadoq2) < length (channels Chadoq2)"
proof -
  have c: "channels Chadoq2 =
      [(''rydberg_global'', Rydberg Global [50, 2.5]),
       (''rydberg_local'', Rydberg Local [50, 10, 100])]
      @ (''rydberg_local2'', Rydberg Local [50, 10, 100])
      # [(''raman_local'', Raman Local [50, 10, 100])]"
    by (simp add: Chadoq2_def)
  show ?thesis
    using supported_bases_distinct
      [of "case_channel (\<lambda>a ps. ''raman'') (\<lambda>a ps. ''rydberg'')" Chadoq2
        "[(''rydberg_global'', Rydberg Global [50, 2.5]),
          (''rydberg_local'', Rydberg Local [50, 10, 100])]"
        "''rydberg_local2''" "Rydberg Local [50, 10, 100]"
        "[(''raman_local'', Raman Local [50, 10, 100])]"]
    by (simp add: c insert_commute)
qed

subsection \<open>C8: what the messages of the violations carry\<close>

text \<open>
  C8 says that every message of a violation carries the violated limit, and that two
  atoms 3.9 apart on Chadoq2 are refused with a message that cites 4. The code does not do
  that for the spacing rule: the capacity, the dimensionality and the radial messages
  format their limit into the text (lines 80, 84 and 94), and the spacing message at
  lines 90 and 91 is built without \<^verbatim>\<open>.format\<close>. Whenever the spacing check fails,
  for two atoms and whatever distance is computed, its message carries no value; on
  Chadoq2 with the atoms (0, 0) and (3.9, 0) construction fails with that message, in
  which no 4 occurs.
\<close>

theorem spacing_message_without_limit:
  "check_spacing nu c [a, b] =
     (if less_than (row_dist nu a b) (min_atom_distance c)
      then Inl (ValueError
        ''Qubit positions don't respect the minimal distance between atoms for this device.''
        [])
      else Inr ())
   \<and> PasqalDevice_init unrounded Chadoq2 Register_init
       (Dict [(''q0'', [0, 0]), (''q1'', [3.9, 0])] :: (real, unit) qubits_arg) =
       Inl (ValueError
         ''Qubit positions don't respect the minimal distance between atoms for this device.''
         [])
   \<and> CHR ''4'' \<notin> set
       ''Qubit positions don't respect the minimal distance between atoms for this device.''
   \<and> min_atom_distance Chadoq2 = 4
   \<and> too_many_atoms Chadoq2 =
       ValueError ''Too many atoms in the array, accepts at most{} atoms.'' [IntArg 100]
   \<and> wrong_dimensionality Chadoq2 =
       ValueError ''All qubit positions must be {}D vectors.'' [IntArg 2]
   \<and> too_far Chadoq2 =
       ValueError ''All qubits must be at most {}um away from the center of the array.''
         [RealArg 50]"
proof -
  have e: "row_dist unrounded [0, 0] [3.9, 0] = Fin 3.9"
    using real_sqrt_abs [of "3.9"] by (simp add: unrounded2)
  have r: "Register_init [(''q0'', [0, 0 :: real]), (''q1'', [3.9, 0])] =
      Inr \<lparr>qubits = [(''q0'', [0, 0]), (''q1'', [3.9, 0])]\<rparr>"
    by (simp add: Register_init_def)
  have i: "PasqalDevice_init unrounded Chadoq2 Register_init
       (Dict [(''q0'', [0, 0]), (''q1'', [3.9, 0])] :: (real, unit) qubits_arg) = Inl too_close"
    by (simp add: PasqalDevice_init_def and_then_def r check_array_eq e Chadoq2_limits)
  show ?thesis
    by (simp add: i check_spacing_pair too_close_def too_many_atoms_def
        wrong_dimensionality_def too_far_def Chadoq2_limits)
qed

end
